theory Spec2Isabelle
  imports Main "HOL-Library.AList"
begin

text \<open>
  A shallow embedding of the Readwise Reader client: the request executor, the listing
  and the topic search of \<^verbatim>\<open>src/readwise-client.ts\<close>, and the list and bulk-delete
  handlers of \<^verbatim>\<open>src/handlers/document-handlers.ts\<close>.

  Asynchronous functions become functions from the trace of effects so far to a result
  and the extended trace; a thrown error or a rejected promise is the \<open>Inl\<close> of a sum.
  The two loops that follow cursors may run forever and are partial functions with an
  optional result. Numbers are exact integers or \<open>NaN\<close> (fractions, infinities and the
  rounding of doubles are left out), strings are byte strings, and objects are lists of
  properties. Calls that JavaScript overlaps (\<^verbatim>\<open>Promise.all\<close>, \<^verbatim>\<open>Promise.allSettled\<close>) are
  run in list order.
\<close>

section \<open>JavaScript values\<close>

text \<open>\<^verbatim>\<open>number\<close>, the values a property can hold, and their truthiness.\<close>

datatype number = NaN | Fin int

datatype jsval = Undefined | Null | Bool bool | Num number | Str string
  | Arr "jsval list" | Obj "(string \<times> jsval) list"

fun truthy :: "jsval \<Rightarrow> bool" where
  "truthy Undefined = False"
| "truthy Null = False"
| "truthy (Bool b) = b"
| "truthy (Num NaN) = False"
| "truthy (Num (Fin n)) = (n \<noteq> 0)"
| "truthy (Str s) = (s \<noteq> [])"
| "truthy (Arr xs) = True"
| "truthy (Obj kvs) = True"

text \<open>\<^verbatim>\<open>String(value)\<close> and the decimal rendering of numbers in template strings.\<close>

definition digit_char :: "int \<Rightarrow> char" where
  "digit_char d =
     (if d = 0 then CHR ''0'' else if d = 1 then CHR ''1'' else if d = 2 then CHR ''2''
      else if d = 3 then CHR ''3'' else if d = 4 then CHR ''4'' else if d = 5 then CHR ''5''
      else if d = 6 then CHR ''6'' else if d = 7 then CHR ''7'' else if d = 8 then CHR ''8''
      else CHR ''9'')"

text \<open>The decimal digits of a non-negative integer.\<close>

function show_digits :: "int \<Rightarrow> string" where
  "show_digits n =
     (if n < 10 then [digit_char n] else show_digits (n div 10) @ [digit_char (n mod 10)])"
  by pat_completeness auto
termination
  by (relation "measure nat") auto


definition show_int :: "int \<Rightarrow> string" where
  "show_int i = (if i < 0 then CHR ''-'' # show_digits (- i) else show_digits i)"

fun show_number :: "number \<Rightarrow> string" where
  "show_number NaN = ''NaN''"
| "show_number (Fin i) = show_int i"

fun join :: "string \<Rightarrow> string list \<Rightarrow> string" where
  "join sep [] = []"
| "join sep [x] = x"
| "join sep (x # y # ys) = x @ sep @ join sep (y # ys)"

fun String :: "jsval \<Rightarrow> string" where
  "String Undefined = ''undefined''"
| "String Null = ''null''"
| "String (Bool b) = (if b then ''true'' else ''false'')"
| "String (Num n) = show_number n"
| "String (Str s) = s"
| "String (Arr xs) = join '','' (map (\<lambda>v. if v = Undefined \<or> v = Null then [] else String v) xs)"
| "String (Obj kvs) = ''[object Object]''"


declare show_digits.simps [simp del]

text \<open>
  \<^verbatim>\<open>parseInt(s, 10)\<close>: leading white space is skipped, one sign is read, then the
  longest prefix of decimal digits; no digit gives \<open>NaN\<close>. Strings are byte strings,
  so only the ASCII white space is recognised.
\<close>

definition is_space :: "char \<Rightarrow> bool" where
  "is_space c = (c \<in> set [CHR '' '', CHR 0x09, CHR 0x0A, CHR 0x0B, CHR 0x0C, CHR 0x0D])"

definition is_digit :: "char \<Rightarrow> bool" where
  "is_digit c = (c \<in> set ''0123456789'')"

definition digit_val :: "char \<Rightarrow> int" where
  "digit_val c = of_char c - 48"

definition parseInt :: "string \<Rightarrow> number" where
  "parseInt s =
     (let t = dropWhile is_space s;
          neg = (t \<noteq> [] \<and> hd t = CHR ''-'');
          u = (if t \<noteq> [] \<and> (hd t = CHR ''-'' \<or> hd t = CHR ''+'') then tl t else t);
          z = takeWhile is_digit u
      in if z = [] then NaN
         else Fin ((if neg then - 1 else 1) * foldl (\<lambda>acc c. 10 * acc + digit_val c) 0 z))"

fun times :: "number \<Rightarrow> number \<Rightarrow> number" where
  "times (Fin a) (Fin b) = Fin (a * b)"
| "times _ _ = NaN"

fun Math_min :: "number \<Rightarrow> number \<Rightarrow> number" where
  "Math_min (Fin a) (Fin b) = Fin (min a b)"
| "Math_min _ _ = NaN"

fun Math_max :: "number \<Rightarrow> number \<Rightarrow> number" where
  "Math_max (Fin a) (Fin b) = Fin (max a b)"
| "Math_max _ _ = NaN"

text \<open>\<^verbatim>\<open>Math.round(x / 1000)\<close> on an integer \<open>x\<close>: to the nearest integer, a half upwards.\<close>

fun Math_round_div1000 :: "number \<Rightarrow> number" where
  "Math_round_div1000 (Fin x) = Fin ((x + 500) div 1000)"
| "Math_round_div1000 NaN = NaN"

section \<open>The request executor\<close>

record RetryConfig =
  maxRetries :: int
  baseDelayMs :: int
  maxDelayMs :: int

definition DEFAULT_RETRY_CONFIG :: RetryConfig where
  "DEFAULT_RETRY_CONFIG = \<lparr>maxRetries = 3, baseDelayMs = 1000, maxDelayMs = 60000\<rparr>"

datatype http_method = GET | POST | PATCH | DELETE

text \<open>
  A request is the endpoint path below the base URL, the entries appended to the
  \<^verbatim>\<open>URLSearchParams\<close> (serialised after \<^verbatim>\<open>?\<close> when there are any) and the method.
\<close>

record request =
  http_method :: http_method
  path :: string
  query :: "(string \<times> string) list"

text \<open>
  What the client reads of a \<^verbatim>\<open>Response\<close>: the status, the status text, the value of
  \<^verbatim>\<open>headers.get('Retry-After')\<close> (\<open>None\<close> for \<^verbatim>\<open>null\<close>), the body as text, and the
  outcome of \<^verbatim>\<open>json()\<close> (\<open>Inl\<close> when the body does not decode).
\<close>

record 'a response =
  status :: int
  statusText :: string
  retryAfter :: "string option"
  bodyText :: string
  bodyJson :: "string + 'a"

definition ok :: "'a response \<Rightarrow> bool" where
  "ok r = (200 \<le> status r \<and> status r \<le> 299)"

datatype exn = Error string | FetchRejected string | JsonRejected string | TypeError string


datatype event = Fetch request | Warn string | Sleep number

fun is_Fetch :: "event \<Rightarrow> bool" where
  "is_Fetch (Fetch r) = True"
| "is_Fetch _ = False"

text \<open>
  The remote service: the outcome of the \<open>n\<close>-th call of \<^verbatim>\<open>fetch\<close> (counted from 0 over
  the whole run) on a request; \<open>Inl\<close> is a rejected \<^verbatim>\<open>fetch\<close>. The state threaded
  through the client is the trace of its effects, and \<open>clock\<close> counts the calls of
  \<^verbatim>\<open>fetch\<close> in it.
\<close>

type_synonym 'a net = "nat \<Rightarrow> request \<Rightarrow> string + 'a response"

definition clock :: "event list \<Rightarrow> nat" where
  "clock tr = length (filter is_Fetch tr)"

definition retryAfterSeconds :: "'a response \<Rightarrow> number" where
  "retryAfterSeconds r =
     (case retryAfter r of None \<Rightarrow> Fin 60 | Some s \<Rightarrow> if s = [] then Fin 60 else parseInt s)"

definition exponentialDelay :: "RetryConfig \<Rightarrow> int \<Rightarrow> int" where
  "exponentialDelay cfg attempt = min (baseDelayMs cfg * 2 ^ nat attempt) (maxDelayMs cfg)"

definition delayMs :: "RetryConfig \<Rightarrow> number \<Rightarrow> number" where
  "delayMs cfg secs = Math_min (times secs (Fin 1000)) (Fin (maxDelayMs cfg))"

definition actualDelay :: "RetryConfig \<Rightarrow> int \<Rightarrow> number \<Rightarrow> number" where
  "actualDelay cfg attempt secs = Math_max (delayMs cfg secs) (Fin (exponentialDelay cfg attempt))"

definition warnMessage :: "RetryConfig \<Rightarrow> int \<Rightarrow> number \<Rightarrow> string" where
  "warnMessage cfg attempt d =
     ''Rate limited. Retrying in '' @ show_number (Math_round_div1000 d) @ ''s (attempt '' @
     show_int (attempt + 1) @ ''/'' @ show_int (maxRetries cfg) @ '')...''"

definition rateLimitMessage :: "RetryConfig \<Rightarrow> number \<Rightarrow> string" where
  "rateLimitMessage cfg secs =
     ''Rate limit exceeded after '' @ show_int (maxRetries cfg) @ '' retries. '' @
     ''Please wait '' @ show_number secs @ '' seconds before trying again.''"

definition apiErrorMessage :: "'a response \<Rightarrow> string" where
  "apiErrorMessage r =
     ''Readwise API error: '' @ show_int (status r) @ '' '' @ statusText r @ '' - '' @ bodyText r"

text \<open>
  The \<^verbatim>\<open>for\<close> loop of \<^verbatim>\<open>makeRequest\<close> with its two variables \<open>attempt\<close> and
  \<open>lastError\<close>; leaving the loop throws \<open>lastError\<close>, or \<^verbatim>\<open>Request failed\<close> when
  there is none. The authorization and content-type headers are the same on every
  request and are not part of the model.
\<close>

function makeRequest_loop ::
  "'a net \<Rightarrow> RetryConfig \<Rightarrow> request \<Rightarrow> int \<Rightarrow> exn option \<Rightarrow> event list
     \<Rightarrow> (exn + 'a option) \<times> event list" where
  "makeRequest_loop net cfg req attempt lastError tr =
     (if attempt \<le> maxRetries cfg then
        (case net (clock tr) req of
           Inl m \<Rightarrow> (Inl (FetchRejected m), tr @ [Fetch req])
         | Inr response \<Rightarrow>
             (if ok response then
                (if status response = 204 then (Inr None, tr @ [Fetch req])
                 else (case bodyJson response of
                         Inl m \<Rightarrow> (Inl (JsonRejected m), tr @ [Fetch req])
                       | Inr v \<Rightarrow> (Inr (Some v), tr @ [Fetch req])))
              else if status response = 429 then
                (if attempt < maxRetries cfg then
                   makeRequest_loop net cfg req (attempt + 1) lastError
                     (tr @ [Fetch req,
                            Warn (warnMessage cfg attempt
                                    (actualDelay cfg attempt (retryAfterSeconds response))),
                            Sleep (actualDelay cfg attempt (retryAfterSeconds response))])
                 else
                   makeRequest_loop net cfg req (attempt + 1)
                     (Some (Error (rateLimitMessage cfg (retryAfterSeconds response))))
                     (tr @ [Fetch req]))
              else (Inl (Error (apiErrorMessage response)), tr @ [Fetch req])))
      else (Inl (case lastError of Some e \<Rightarrow> e | None \<Rightarrow> Error ''Request failed''), tr))"
  by pat_completeness auto
termination
  by (relation "measure (\<lambda>(net, cfg, req, attempt, lastError, tr). nat (maxRetries cfg + 1 - attempt))") auto

definition makeRequest ::
  "'a net \<Rightarrow> RetryConfig \<Rightarrow> request \<Rightarrow> event list \<Rightarrow> (exn + 'a option) \<times> event list" where
  "makeRequest net cfg req tr = makeRequest_loop net cfg req 0 None tr"


section \<open>Objects and the response envelope\<close>

text \<open>
  A JavaScript object is the list of its own properties in insertion order. A missing
  property reads as \<^verbatim>\<open>undefined\<close>, an assignment (\<open>AList.update\<close>) overwrites in place
  or appends, and \<^verbatim>\<open>delete\<close> (\<open>AList.delete\<close>) removes the property.
\<close>

type_synonym obj = "(string \<times> jsval) list"

definition get :: "obj \<Rightarrow> string \<Rightarrow> jsval" where
  "get ob k = (case map_of ob k of None \<Rightarrow> Undefined | Some v \<Rightarrow> v)"

text \<open>\<^verbatim>\<open>a || b\<close>\<close>

definition or_else :: "jsval \<Rightarrow> jsval \<Rightarrow> jsval" where
  "or_else a b = (if truthy a then a else b)"

datatype message_type = info | error

record APIMessage =
  msg_type :: message_type
  content :: string

record 'a APIResponse =
  data :: 'a
  messages :: "APIMessage list option"

definition createResponse :: "'a \<Rightarrow> APIMessage list option \<Rightarrow> 'a APIResponse" where
  "createResponse d ms = \<lparr>data = d, messages = ms\<rparr>"

definition createInfoMessage :: "string \<Rightarrow> APIMessage" where
  "createInfoMessage c = \<lparr>msg_type = info, content = c\<rparr>"

definition createErrorMessage :: "string \<Rightarrow> APIMessage" where
  "createErrorMessage c = \<lparr>msg_type = error, content = c\<rparr>"

section \<open>Listing documents\<close>

record ListDocumentsResponse =
  count :: int
  nextPageCursor :: jsval
  results :: "obj list"

text \<open>
  The entries appended to the \<^verbatim>\<open>URLSearchParams\<close>: every property whose value is not
  \<^verbatim>\<open>undefined\<close>, as \<^verbatim>\<open>String(value)\<close>.
\<close>

definition searchParams :: "obj \<Rightarrow> (string \<times> string) list" where
  "searchParams ps = map (\<lambda>(k, v). (k, String v)) (filter (\<lambda>(k, v). v \<noteq> Undefined) ps)"

definition listEndpoint :: "obj \<Rightarrow> request" where
  "listEndpoint ps = \<lparr>http_method = GET, path = ''/list/'', query = searchParams ps\<rparr>"

definition countParams :: "obj \<Rightarrow> obj" where
  "countParams params = AList.delete ''withHtmlContent'' (AList.delete ''withFullContent'' params)"

definition limitedParams :: "obj \<Rightarrow> obj" where
  "limitedParams params = AList.update ''limit'' (Num (Fin 5)) params"

definition limitInfoText :: "int \<Rightarrow> string" where
  "limitInfoText c =
     ''Found '' @ show_int c @ '' documents, but only returning the first 5 due to full content request. '' @
     ''To get the remaining '' @ show_int (c - 5) @ '' documents with full content, '' @
     ''you can fetch them individually by their IDs using the update/read document API.''"

definition limitErrorText :: "int \<Rightarrow> string" where
  "limitErrorText c =
     ''Found '' @ show_int c @ '' documents, but only returning the first 5 due to full content request. '' @
     ''Getting full content for more than 20 documents is not supported due to performance limitations.''"

definition undefined_read :: exn where
  "undefined_read = TypeError ''Cannot read properties of undefined''"

text \<open>
  \<open>plainList\<close> is the end of \<^verbatim>\<open>listDocuments\<close>, reached when full content is not
  requested or the count is at most 5: the query with the caller's own parameters.
  A result that is \<^verbatim>\<open>undefined\<close> (status 204) makes reading \<^verbatim>\<open>count\<close> throw.
\<close>

definition plainList ::
  "ListDocumentsResponse net \<Rightarrow> RetryConfig \<Rightarrow> obj \<Rightarrow> event list
     \<Rightarrow> (exn + ListDocumentsResponse option APIResponse) \<times> event list" where
  "plainList net cfg params tr =
     (case makeRequest net cfg (listEndpoint params) tr of
        (Inl e, tr') \<Rightarrow> (Inl e, tr')
      | (Inr result, tr') \<Rightarrow> (Inr (createResponse result None), tr'))"

definition listDocuments ::
  "ListDocumentsResponse net \<Rightarrow> RetryConfig \<Rightarrow> obj \<Rightarrow> event list
     \<Rightarrow> (exn + ListDocumentsResponse option APIResponse) \<times> event list" where
  "listDocuments net cfg params tr =
     (if truthy (get params ''withFullContent'') then
        (case makeRequest net cfg (listEndpoint (countParams params)) tr of
           (Inl e, tr1) \<Rightarrow> (Inl e, tr1)
         | (Inr None, tr1) \<Rightarrow> (Inl undefined_read, tr1)
         | (Inr (Some countResponse), tr1) \<Rightarrow>
             (if count countResponse > 5 then
                (case makeRequest net cfg (listEndpoint (limitedParams params)) tr1 of
                   (Inl e, tr2) \<Rightarrow> (Inl e, tr2)
                 | (Inr result, tr2) \<Rightarrow>
                     (Inr (createResponse result
                        (Some [if count countResponse \<le> 20
                               then createInfoMessage (limitInfoText (count countResponse))
                               else createErrorMessage (limitErrorText (count countResponse))])),
                      tr2))
              else plainList net cfg params tr1))
      else plainList net cfg params tr)"

section \<open>Aggregating pages\<close>

text \<open>
  The \<^verbatim>\<open>do ... while (nextPageCursor)\<close> loop of \<^verbatim>\<open>searchDocumentsByTopic\<close>, entered with
  the cursor \<^verbatim>\<open>undefined\<close> and the empty accumulator.
\<close>

definition topicParams :: "jsval \<Rightarrow> obj" where
  "topicParams cursor =
     (if truthy cursor
      then [(''withFullContent'', Bool False), (''withHtmlContent'', Bool False), (''pageCursor'', cursor)]
      else [(''withFullContent'', Bool False), (''withHtmlContent'', Bool False)])"

partial_function (option) searchDocumentsByTopic_loop ::
  "ListDocumentsResponse net \<Rightarrow> RetryConfig \<Rightarrow> obj list \<Rightarrow> jsval \<Rightarrow> event list
     \<Rightarrow> ((exn + obj list) \<times> event list) option" where
  "searchDocumentsByTopic_loop net cfg allDocuments cursor tr =
     (case listDocuments net cfg (topicParams cursor) tr of
        (Inl e, tr') \<Rightarrow> Some (Inl e, tr')
      | (Inr response, tr') \<Rightarrow>
          (case data response of
             None \<Rightarrow> Some (Inl undefined_read, tr')
           | Some d \<Rightarrow>
               if truthy (nextPageCursor d)
               then searchDocumentsByTopic_loop net cfg (allDocuments @ results d) (nextPageCursor d) tr'
               else Some (Inr (allDocuments @ results d), tr')))"

declare searchDocumentsByTopic_loop.simps [code]

definition toLowerCase :: "string \<Rightarrow> string" where
  "toLowerCase s =
     map (\<lambda>c. if 65 \<le> (of_char c :: int) \<and> (of_char c :: int) \<le> 90
              then char_of ((of_char c :: int) + 32) else c) s"

definition element_text :: "jsval \<Rightarrow> string" where
  "element_text v = (if v = Undefined \<or> v = Null then [] else String v)"

definition searchableText :: "obj \<Rightarrow> string" where
  "searchableText doc =
     toLowerCase (join '' ''
       [String (or_else (get doc ''title'') (Str [])),
        String (or_else (get doc ''summary'') (Str [])),
        String (or_else (get doc ''notes'') (Str [])),
        (case get doc ''tags'' of Arr ts \<Rightarrow> join '' '' (map element_text ts) | _ \<Rightarrow> [])])"

text \<open>
  A search term is escaped into a pattern that matches it literally, without regard to
  case: the pattern matches when the term occurs in the text.
\<close>

definition pattern_test :: "string \<Rightarrow> string \<Rightarrow> bool" where
  "pattern_test term_src txt =
     (\<exists>k \<in> set [0..<Suc (length txt)].
        take (length term_src) (drop k (toLowerCase txt)) = toLowerCase term_src)"

definition searchDocumentsByTopic ::
  "ListDocumentsResponse net \<Rightarrow> RetryConfig \<Rightarrow> string list \<Rightarrow> event list
     \<Rightarrow> ((exn + obj list APIResponse) \<times> event list) option" where
  "searchDocumentsByTopic net cfg searchTerms tr =
     (case searchDocumentsByTopic_loop net cfg [] Undefined tr of
        None \<Rightarrow> None
      | Some (Inl e, tr') \<Rightarrow> Some (Inl e, tr')
      | Some (Inr allDocuments, tr') \<Rightarrow>
          Some (Inr (createResponse
                  (filter (\<lambda>doc. \<exists>t \<in> set searchTerms. pattern_test t (searchableText doc))
                     allDocuments) None), tr'))"


section \<open>The list handler\<close>



text \<open>
  The \<^verbatim>\<open>do ... while\<close> loop of the \<^verbatim>\<open>addedAfter\<close> path: \<open>pageParams\<close> is
  \<^verbatim>\<open>fetchParams\<close>, the parameters of one page.
\<close>

definition pageParams :: "obj \<Rightarrow> jsval \<Rightarrow> obj" where
  "pageParams apiParams cursor =
     (if truthy cursor then AList.update ''pageCursor'' cursor apiParams else apiParams)"

partial_function (option) handleListDocuments_loop ::
  "ListDocumentsResponse net \<Rightarrow> RetryConfig \<Rightarrow> obj \<Rightarrow> obj list \<Rightarrow> jsval \<Rightarrow> event list
     \<Rightarrow> ((exn + obj list) \<times> event list) option" where
  "handleListDocuments_loop net cfg apiParams allDocuments cursor tr =
     (case listDocuments net cfg (pageParams apiParams cursor) tr of
        (Inl e, tr') \<Rightarrow> Some (Inl e, tr')
      | (Inr pageResponse, tr') \<Rightarrow>
          (case data pageResponse of
             None \<Rightarrow> Some (Inl undefined_read, tr')
           | Some d \<Rightarrow>
               if truthy (nextPageCursor d)
               then handleListDocuments_loop net cfg apiParams (allDocuments @ results d)
                      (nextPageCursor d) tr'
               else Some (Inr (allDocuments @ results d), tr')))"

declare handleListDocuments_loop.simps [code]










text \<open>
  What the handler serialises into its text: the count, the cursor and the documents of
  the JSON part, and the messages listed after it.
\<close>

record list_output =
  out_count :: int
  out_nextPageCursor :: jsval
  documents :: "obj list"
  allMessages :: "APIMessage list"



section \<open>Bulk delete\<close>









section \<open>Auxiliary definitions for the statements\<close>

text \<open>
  The effects of attempt \<open>k\<close> of a request that is rate limited and retried: the call of
  \<^verbatim>\<open>fetch\<close>, the warning and the wait, where \<open>rs k\<close> is the response to attempt \<open>k\<close>.
\<close>

definition attempt_events ::
  "RetryConfig \<Rightarrow> request \<Rightarrow> (nat \<Rightarrow> 'a response) \<Rightarrow> nat \<Rightarrow> event list" where
  "attempt_events cfg req rs k =
     [Fetch req,
      Warn (warnMessage cfg (int k) (actualDelay cfg (int k) (retryAfterSeconds (rs k)))),
      Sleep (actualDelay cfg (int k) (retryAfterSeconds (rs k)))]"

text \<open>Concrete responses and requests used in the examples.\<close>

definition always_429 :: "string option \<Rightarrow> unit response" where
  "always_429 h = \<lparr>status = 429, statusText = ''Too Many Requests'', retryAfter = h,
                    bodyText = [], bodyJson = Inl ''Unexpected end of JSON input''\<rparr>"

definition list_request :: request where
  "list_request = \<lparr>http_method = GET, path = ''/list/'', query = []\<rparr>"

definition not_found :: "unit response" where
  "not_found = \<lparr>status = 404, statusText = ''Not Found'', retryAfter = None,
                bodyText = ''{}'', bodyJson = Inr ()\<rparr>"

definition no_content :: "unit response" where
  "no_content = \<lparr>status = 204, statusText = ''No Content'', retryAfter = None,
                 bodyText = [], bodyJson = Inl ''Unexpected end of JSON input''\<rparr>"

definition counted_page :: "int \<Rightarrow> ListDocumentsResponse" where
  "counted_page c =
     \<lparr>count = c, nextPageCursor = Null,
      results = [[(''id'', Str ''d1''), (''url'', Str ''https://example.com/1'')]]\<rparr>"

definition counting_net :: "int \<Rightarrow> ListDocumentsResponse net" where
  "counting_net c n q =
     Inr \<lparr>status = 200, statusText = ''OK'', retryAfter = None, bodyText = [],
          bodyJson = Inr (counted_page c)\<rparr>"

definition full_content_params :: obj where
  "full_content_params = [(''withFullContent'', Bool True), (''category'', Str ''article'')]"

text \<open>
  A sequence of pages linked by cursors, as successive calls return them: the call for
  \<open>cursor\<close> returns the first page, every page but the last carries a cursor that is
  followed, and the last page carries none. \<open>after_pages\<close> is the trace once these pages
  have been fetched.
\<close>

fun linked ::
  "(jsval \<Rightarrow> event list \<Rightarrow> (exn + ListDocumentsResponse option APIResponse) \<times> event list)
     \<Rightarrow> jsval \<Rightarrow> event list \<Rightarrow> ListDocumentsResponse list \<Rightarrow> bool" where
  "linked call cursor tr [] = False"
| "linked call cursor tr (p # ps) =
     (case call cursor tr of
        (Inl e, tr') \<Rightarrow> False
      | (Inr response, tr') \<Rightarrow>
          data response = Some p \<and>
          (if ps = [] then \<not> truthy (nextPageCursor p)
           else truthy (nextPageCursor p) \<and> linked call (nextPageCursor p) tr' ps))"

fun after_pages ::
  "(jsval \<Rightarrow> event list \<Rightarrow> (exn + ListDocumentsResponse option APIResponse) \<times> event list)
     \<Rightarrow> jsval \<Rightarrow> event list \<Rightarrow> ListDocumentsResponse list \<Rightarrow> event list" where
  "after_pages call cursor tr [] = tr"
| "after_pages call cursor tr (p # ps) =
     after_pages call (nextPageCursor p) (snd (call cursor tr)) ps"

text \<open>Twelve documents on three pages, for the examples.\<close>

definition example_doc :: "string \<Rightarrow> string \<Rightarrow> obj" where
  "example_doc i saved =
     [(''id'', Str i), (''url'', Str (''https://example.com/'' @ i)), (''saved_at'', Str saved)]"

definition page_one :: ListDocumentsResponse where
  "page_one = \<lparr>count = 12, nextPageCursor = Str ''cursor2'',
                results = [example_doc ''1'' ''2024-01-01'', example_doc ''2'' ''2024-01-02'',
                           example_doc ''3'' ''2024-02-03'', [(''id'', Str ''4'')]]\<rparr>"

definition page_two :: ListDocumentsResponse where
  "page_two = \<lparr>count = 12, nextPageCursor = Str ''cursor3'',
                results = [example_doc ''5'' ''2024-02-01'', example_doc ''6'' ''2024-02-02'',
                           example_doc ''7'' ''2024-02-03'', example_doc ''8'' ''2024-02-04'']\<rparr>"

definition page_three :: ListDocumentsResponse where
  "page_three = \<lparr>count = 12, nextPageCursor = Null,
                  results = [example_doc ''9'' ''2024-03-01'', example_doc ''10'' ''2023-12-31'',
                             example_doc ''11'' ''2024-03-03'', example_doc ''12'' ''2024-03-04'']\<rparr>"

definition paged_net :: "ListDocumentsResponse net" where
  "paged_net n q =
     Inr \<lparr>status = 200, statusText = ''OK'', retryAfter = None, bodyText = [],
          bodyJson = Inr (case map_of (query q) ''pageCursor'' of
                            None \<Rightarrow> page_one
                          | Some c \<Rightarrow> if c = ''cursor2'' then page_two else page_three)\<rparr>"





definition page_request :: "(string \<times> string) list \<Rightarrow> event" where
  "page_request q = Fetch \<lparr>http_method = GET, path = ''/list/'', query = q\<rparr>"














section \<open>Properties of the request executor\<close>

declare makeRequest_loop.simps [simp del]

lemma clock_append [simp]: "clock (xs @ ys) = clock xs + clock ys"
  by (simp add: clock_def)

lemma clock_simps [simp]:
  "clock [] = 0" "clock (Fetch r # tr) = Suc (clock tr)"
  "clock (Warn w # tr) = clock tr" "clock (Sleep d # tr) = clock tr"
  by (simp_all add: clock_def)

lemma not_ok_429: "status r = 429 \<Longrightarrow> \<not> ok r"
  by (simp add: ok_def)

lemma loop_exit:
  "maxRetries cfg < attempt \<Longrightarrow>
   makeRequest_loop net cfg req attempt lastError tr =
     (Inl (case lastError of Some e \<Rightarrow> e | None \<Rightarrow> Error ''Request failed''), tr)"
  by (subst makeRequest_loop.simps) simp

lemma loop_429_retry:
  assumes "attempt < maxRetries cfg" "net (clock tr) req = Inr r" "status r = 429"
  shows "makeRequest_loop net cfg req attempt lastError tr =
         makeRequest_loop net cfg req (attempt + 1) lastError
           (tr @ [Fetch req,
                  Warn (warnMessage cfg attempt (actualDelay cfg attempt (retryAfterSeconds r))),
                  Sleep (actualDelay cfg attempt (retryAfterSeconds r))])"
  using assms by (subst makeRequest_loop.simps) (simp add: not_ok_429)

lemma loop_429_last:
  assumes "attempt = maxRetries cfg" "net (clock tr) req = Inr r" "status r = 429"
  shows "makeRequest_loop net cfg req attempt lastError tr =
         (Inl (Error (rateLimitMessage cfg (retryAfterSeconds r))), tr @ [Fetch req])"
  using assms by (subst makeRequest_loop.simps) (simp add: not_ok_429 loop_exit)

lemma loop_api_error:
  assumes "attempt \<le> maxRetries cfg" "net (clock tr) req = Inr r" "\<not> ok r" "status r \<noteq> 429"
  shows "makeRequest_loop net cfg req attempt lastError tr =
         (Inl (Error (apiErrorMessage r)), tr @ [Fetch req])"
  using assms by (subst makeRequest_loop.simps) simp

lemma loop_204:
  assumes "attempt \<le> maxRetries cfg" "net (clock tr) req = Inr r" "status r = 204"
  shows "makeRequest_loop net cfg req attempt lastError tr = (Inr None, tr @ [Fetch req])"
  using assms by (subst makeRequest_loop.simps) (simp add: ok_def)

lemma loop_ok_json:
  assumes "attempt \<le> maxRetries cfg" "net (clock tr) req = Inr r" "ok r" "status r \<noteq> 204"
    "bodyJson r = Inr v"
  shows "makeRequest_loop net cfg req attempt lastError tr = (Inr (Some v), tr @ [Fetch req])"
  using assms by (subst makeRequest_loop.simps) simp

lemma loop_all_429:
  assumes all: "\<forall>k\<le>M. net (c0 + k) req = Inr (rs k) \<and> status (rs k) = 429"
    and M: "maxRetries cfg = int M"
  shows "a \<le> M \<Longrightarrow> M - a = n \<Longrightarrow> clock tr = c0 + a \<Longrightarrow>
         makeRequest_loop net cfg req (int a) lastError tr =
           (Inl (Error (rateLimitMessage cfg (retryAfterSeconds (rs M)))),
            tr @ concat (map (attempt_events cfg req rs) [a..<M]) @ [Fetch req])"
proof (induction n arbitrary: a tr)
  case 0
  then have "a = M" by simp
  with all 0 have "net (clock tr) req = Inr (rs M)" "status (rs M) = 429" by auto
  with \<open>a = M\<close> M show ?case
    by (simp add: loop_429_last)
next
  case (Suc n)
  then have lt: "a < M" by simp
  with all Suc.prems have r: "net (clock tr) req = Inr (rs a)" "status (rs a) = 429" by auto
  let ?tr = "tr @ attempt_events cfg req rs a"
  have step: "makeRequest_loop net cfg req (int a) lastError tr =
              makeRequest_loop net cfg req (int (Suc a)) lastError ?tr"
    using loop_429_retry [of "int a" cfg net tr req "rs a" lastError] r lt M
    by (simp add: attempt_events_def add.commute)
  have "clock ?tr = c0 + Suc a" using Suc.prems by (simp add: attempt_events_def)
  with Suc.IH [of "Suc a" ?tr] lt Suc.prems
  have "makeRequest_loop net cfg req (int (Suc a)) lastError ?tr =
        (Inl (Error (rateLimitMessage cfg (retryAfterSeconds (rs M)))),
         ?tr @ concat (map (attempt_events cfg req rs) [Suc a..<M]) @ [Fetch req])"
    by simp
  with step lt show ?case by (simp add: upt_conv_Cons)
qed


lemma clock_attempts [simp]:
  "clock (concat (map (attempt_events cfg req rs) ks)) = length ks"
  by (induction ks) (simp_all add: attempt_events_def)

lemma fetches_attempts [simp]:
  "filter is_Fetch (concat (map (attempt_events cfg req rs) ks)) = replicate (length ks) (Fetch req)"
  by (induction ks) (simp_all add: attempt_events_def)

text \<open>
  Claim C1. When every attempt of a request is answered with status 429, the executor
  calls \<^verbatim>\<open>fetch\<close> exactly \<open>maxRetries + 1\<close> times, warning and waiting after each
  attempt but the last, and then fails with the rate-limit error whose message carries
  the Retry-After value of the last response. The trace ends with the last call of
  \<^verbatim>\<open>fetch\<close>: nothing is requested after the failure. Here \<open>maxRetries\<close> is the
  non-negative number \<open>M\<close> and \<open>rs k\<close> is the response to attempt \<open>k\<close>.
\<close>

theorem makeRequest_all_429:
  assumes "maxRetries cfg = int M"
    and "\<forall>k\<le>M. net (clock tr + k) req = Inr (rs k) \<and> status (rs k) = 429"
  shows "makeRequest net cfg req tr =
           (Inl (Error (''Rate limit exceeded after '' @ show_int (maxRetries cfg) @ '' retries. '' @
                        ''Please wait '' @ show_number (retryAfterSeconds (rs M)) @
                        '' seconds before trying again.'')),
            tr @ concat (map (attempt_events cfg req rs) [0..<M]) @ [Fetch req])
         \<and> filter is_Fetch (concat (map (attempt_events cfg req rs) [0..<M]) @ [Fetch req]) =
             replicate (M + 1) (Fetch req)
         \<and> clock (tr @ concat (map (attempt_events cfg req rs) [0..<M]) @ [Fetch req]) =
             clock tr + (M + 1)"
proof -
  have "makeRequest_loop net cfg req (int 0) None tr =
          (Inl (Error (rateLimitMessage cfg (retryAfterSeconds (rs M)))),
           tr @ concat (map (attempt_events cfg req rs) [0..<M]) @ [Fetch req])"
    using assms
    by (intro loop_all_429 [where ?c0.0 = "clock tr" and n = M and M = M]) simp_all
  then show ?thesis
    by (simp add: makeRequest_def rateLimitMessage_def replicate_append_same)
qed

theorem makeRequest_all_429_witness:
  "makeRequest (\<lambda>n q. Inr (always_429 (Some ''120''))) DEFAULT_RETRY_CONFIG list_request [] =
     (Inl (Error ''Rate limit exceeded after 3 retries. Please wait 120 seconds before trying again.''),
      [Fetch list_request, Warn ''Rate limited. Retrying in 60s (attempt 1/3)...'', Sleep (Fin 60000),
       Fetch list_request, Warn ''Rate limited. Retrying in 60s (attempt 2/3)...'', Sleep (Fin 60000),
       Fetch list_request, Warn ''Rate limited. Retrying in 60s (attempt 3/3)...'', Sleep (Fin 60000),
       Fetch list_request])"
proof -
  have h1: "maxRetries DEFAULT_RETRY_CONFIG = int 3"
    by (simp add: DEFAULT_RETRY_CONFIG_def)
  have h2: "\<forall>k\<le>3. (\<lambda>n q. Inr (always_429 (Some ''120''))) (clock [] + k) list_request
                    = Inr ((\<lambda>k. always_429 (Some ''120'')) k)
                  \<and> status ((\<lambda>k. always_429 (Some ''120'')) k) = 429"
    by (simp add: always_429_def)
  have e1: "show_int 3 = ''3''" by code_simp
  have e2: "show_number (retryAfterSeconds (always_429 (Some ''120''))) = ''120''" by code_simp
  have e3: "[0..<3] = [0, 1, 2]" by code_simp
  have e4: "attempt_events DEFAULT_RETRY_CONFIG list_request (\<lambda>k. always_429 (Some ''120'')) 0 =
      [Fetch list_request, Warn ''Rate limited. Retrying in 60s (attempt 1/3)...'', Sleep (Fin 60000)]"
    by code_simp
  have e5: "attempt_events DEFAULT_RETRY_CONFIG list_request (\<lambda>k. always_429 (Some ''120'')) 1 =
      [Fetch list_request, Warn ''Rate limited. Retrying in 60s (attempt 2/3)...'', Sleep (Fin 60000)]"
    by code_simp
  have e6: "attempt_events DEFAULT_RETRY_CONFIG list_request (\<lambda>k. always_429 (Some ''120'')) 2 =
      [Fetch list_request, Warn ''Rate limited. Retrying in 60s (attempt 3/3)...'', Sleep (Fin 60000)]"
    by code_simp
  have "makeRequest (\<lambda>n q. Inr (always_429 (Some ''120''))) DEFAULT_RETRY_CONFIG list_request [] =
          (Inl (Error (''Rate limit exceeded after '' @ show_int (maxRetries DEFAULT_RETRY_CONFIG) @
                       '' retries. '' @ ''Please wait '' @
                       show_number (retryAfterSeconds (always_429 (Some ''120''))) @
                       '' seconds before trying again.'')),
           [] @ concat (map (attempt_events DEFAULT_RETRY_CONFIG list_request
                               (\<lambda>k. always_429 (Some ''120''))) [0..<3]) @ [Fetch list_request])"
    using makeRequest_all_429 [of DEFAULT_RETRY_CONFIG 3 "\<lambda>n q. Inr (always_429 (Some ''120''))"
                                  "[]" list_request "\<lambda>k. always_429 (Some ''120'')"] h1 h2
    by blast
  then show ?thesis
    by (simp only: h1 e1 e2 e3 e4 e5 e6 list.map concat.simps append.simps of_nat_numeral)
qed


lemma show_60: "show_int 60 = ''60''"
  by code_simp

text \<open>
  Claim C2, as amended. For a 429 response with a Retry-After header that reads as the
  integer \<open>s\<close>, the wait is \<open>max (min (s * 1000) maxDelayMs) (min (baseDelayMs * 2 ^ attempt) maxDelayMs)\<close>.
  It never exceeds \<open>maxDelayMs\<close>; it is at least the server's \<open>s * 1000\<close> milliseconds
  when these do not exceed \<open>maxDelayMs\<close>, and it is \<open>maxDelayMs\<close> itself when they do.
  This is the value the executor sleeps for before the next attempt.
\<close>

theorem retry_after_wait_bounds:
  assumes "retryAfter r = Some h" and "retryAfterSeconds r = Fin s"
  shows "actualDelay cfg attempt (retryAfterSeconds r) =
           Fin (max (min (s * 1000) (maxDelayMs cfg))
                    (min (baseDelayMs cfg * 2 ^ nat attempt) (maxDelayMs cfg)))
         \<and> max (min (s * 1000) (maxDelayMs cfg))
               (min (baseDelayMs cfg * 2 ^ nat attempt) (maxDelayMs cfg)) \<le> maxDelayMs cfg
         \<and> (s * 1000 \<le> maxDelayMs cfg \<longrightarrow>
              s * 1000 \<le> max (min (s * 1000) (maxDelayMs cfg))
                              (min (baseDelayMs cfg * 2 ^ nat attempt) (maxDelayMs cfg)))
         \<and> (maxDelayMs cfg \<le> s * 1000 \<longrightarrow>
              max (min (s * 1000) (maxDelayMs cfg))
                  (min (baseDelayMs cfg * 2 ^ nat attempt) (maxDelayMs cfg)) = maxDelayMs cfg)
         \<and> (attempt < maxRetries cfg \<and> net (clock tr) req = Inr r \<and> status r = 429 \<longrightarrow>
              makeRequest_loop net cfg req attempt lastError tr =
              makeRequest_loop net cfg req (attempt + 1) lastError
                (tr @ [Fetch req,
                       Warn (warnMessage cfg attempt (actualDelay cfg attempt (retryAfterSeconds r))),
                       Sleep (actualDelay cfg attempt (retryAfterSeconds r))]))"
  using assms(2)
  by (auto simp: actualDelay_def delayMs_def exponentialDelay_def loop_429_retry)

theorem retry_after_wait_bounds_witness:
  "actualDelay DEFAULT_RETRY_CONFIG 1 (retryAfterSeconds (always_429 (Some ''30''))) = Fin 30000
   \<and> actualDelay DEFAULT_RETRY_CONFIG 1 (retryAfterSeconds (always_429 (Some ''120''))) = Fin 60000"
proof -
  have a: "retryAfter (always_429 (Some ''30'')) = Some ''30''"
    and b: "retryAfter (always_429 (Some ''120'')) = Some ''120''"
    by (simp_all add: always_429_def)
  have c: "retryAfterSeconds (always_429 (Some ''30'')) = Fin 30"
    and d: "retryAfterSeconds (always_429 (Some ''120'')) = Fin 120"
    by code_simp+
  have e: "maxDelayMs DEFAULT_RETRY_CONFIG = 60000" "baseDelayMs DEFAULT_RETRY_CONFIG = 1000"
    by (simp_all add: DEFAULT_RETRY_CONFIG_def)
  from retry_after_wait_bounds [OF a c, of DEFAULT_RETRY_CONFIG 1]
       retry_after_wait_bounds [OF b d, of DEFAULT_RETRY_CONFIG 1]
  show ?thesis by (simp add: e)
qed

text \<open>
  The claim as written fails where the server asks for more than \<open>maxDelayMs\<close>: with
  the default configuration and \<^verbatim>\<open>Retry-After: 120\<close>, the server's 120000 ms exceed
  the backoff value 1000 ms of attempt 0, and the wait is 60000 ms.
\<close>

theorem retry_after_wait_counterexample:
  "retryAfter (always_429 (Some ''120'')) = Some ''120''
   \<and> retryAfterSeconds (always_429 (Some ''120'')) = Fin 120
   \<and> exponentialDelay DEFAULT_RETRY_CONFIG 0 = 1000
   \<and> exponentialDelay DEFAULT_RETRY_CONFIG 0 < 120 * 1000
   \<and> actualDelay DEFAULT_RETRY_CONFIG 0 (retryAfterSeconds (always_429 (Some ''120''))) = Fin 60000
   \<and> \<not> (120 * 1000 \<le> (60000 :: int))"
  by code_simp

text \<open>
  Claim C9. At any attempt of the loop, a response whose status is neither 2xx nor 429
  ends the call at once with the error that carries the status, the status text and the
  body text, after this one call of \<^verbatim>\<open>fetch\<close>; and a response with status 204 ends it
  with the empty result, whatever decoding the body would give.
\<close>

theorem makeRequest_other_status:
  assumes "attempt \<le> maxRetries cfg" and "net (clock tr) req = Inr r"
  shows "(\<not> ok r \<and> status r \<noteq> 429 \<longrightarrow>
            makeRequest_loop net cfg req attempt lastError tr =
              (Inl (Error (''Readwise API error: '' @ show_int (status r) @ '' '' @ statusText r @
                           '' - '' @ bodyText r)),
               tr @ [Fetch req]))
         \<and> (status r = 204 \<longrightarrow>
            makeRequest_loop net cfg req attempt lastError tr = (Inr None, tr @ [Fetch req]))"
  using assms loop_api_error [of attempt cfg net tr req r lastError]
    loop_204 [of attempt cfg net tr req r lastError]
  by (simp add: apiErrorMessage_def)

theorem makeRequest_other_status_witness:
  "makeRequest (\<lambda>n q. Inr not_found) DEFAULT_RETRY_CONFIG list_request [] =
     (Inl (Error ''Readwise API error: 404 Not Found - {}''), [Fetch list_request])
   \<and> makeRequest (\<lambda>n q. Inr no_content) DEFAULT_RETRY_CONFIG list_request [] =
     (Inr None, [Fetch list_request])"
proof -
  have h: "0 \<le> maxRetries DEFAULT_RETRY_CONFIG" by (simp add: DEFAULT_RETRY_CONFIG_def)
  have a: "\<not> ok not_found \<and> status not_found \<noteq> 429" by (simp add: not_found_def ok_def)
  have b: "status no_content = 204" by (simp add: no_content_def)
  have "makeRequest (\<lambda>n q. Inr not_found) DEFAULT_RETRY_CONFIG list_request [] =
        makeRequest_loop (\<lambda>n q. Inr not_found) DEFAULT_RETRY_CONFIG list_request 0 None []"
    by (simp only: makeRequest_def)
  also have "\<dots> = (Inl (Error (''Readwise API error: '' @ show_int (status not_found) @ '' '' @
                       statusText not_found @ '' - '' @ bodyText not_found)),
           [] @ [Fetch list_request])"
    using makeRequest_other_status [OF h, of "\<lambda>n q. Inr not_found" "[]" list_request not_found None] a
    by blast
  also have "\<dots> = (Inl (Error ''Readwise API error: 404 Not Found - {}''), [Fetch list_request])"
    by code_simp
  finally have 1: "makeRequest (\<lambda>n q. Inr not_found) DEFAULT_RETRY_CONFIG list_request [] =
     (Inl (Error ''Readwise API error: 404 Not Found - {}''), [Fetch list_request])" .
  have "makeRequest (\<lambda>n q. Inr no_content) DEFAULT_RETRY_CONFIG list_request [] =
        makeRequest_loop (\<lambda>n q. Inr no_content) DEFAULT_RETRY_CONFIG list_request 0 None []"
    by (simp only: makeRequest_def)
  also have "\<dots> = (Inr None, [] @ [Fetch list_request])"
    using makeRequest_other_status [OF h, of "\<lambda>n q. Inr no_content" "[]" list_request no_content None] b
    by blast
  finally have 2: "makeRequest (\<lambda>n q. Inr no_content) DEFAULT_RETRY_CONFIG list_request [] =
     (Inr None, [Fetch list_request])" by simp
  from 1 2 show ?thesis by (rule conjI)
qed

text \<open>
  Claim C10. A 429 response without a Retry-After header counts as 60 seconds: the wait
  is computed from 60000 ms, clamped to \<open>maxDelayMs\<close> and compared with the backoff
  value, and the error of the last attempt asks to wait 60 seconds.
\<close>

theorem default_retry_after:
  assumes "retryAfter r = None" and "net (clock tr) req = Inr r" and "status r = 429"
  shows "retryAfterSeconds r = Fin 60
         \<and> actualDelay cfg attempt (retryAfterSeconds r) =
             Fin (max (min 60000 (maxDelayMs cfg))
                      (min (baseDelayMs cfg * 2 ^ nat attempt) (maxDelayMs cfg)))
         \<and> (attempt < maxRetries cfg \<longrightarrow>
              makeRequest_loop net cfg req attempt lastError tr =
              makeRequest_loop net cfg req (attempt + 1) lastError
                (tr @ [Fetch req,
                       Warn (warnMessage cfg attempt
                              (Fin (max (min 60000 (maxDelayMs cfg))
                                        (min (baseDelayMs cfg * 2 ^ nat attempt) (maxDelayMs cfg))))),
                       Sleep (Fin (max (min 60000 (maxDelayMs cfg))
                                       (min (baseDelayMs cfg * 2 ^ nat attempt) (maxDelayMs cfg))))]))
         \<and> (attempt = maxRetries cfg \<longrightarrow>
              makeRequest_loop net cfg req attempt lastError tr =
                (Inl (Error (''Rate limit exceeded after '' @ show_int (maxRetries cfg) @
                             '' retries. '' @ ''Please wait 60 seconds before trying again.'')),
                 tr @ [Fetch req]))"
proof -
  have s: "retryAfterSeconds r = Fin 60"
    using assms(1) by (simp add: retryAfterSeconds_def)
  have d: "actualDelay cfg attempt (Fin 60) =
             Fin (max (min 60000 (maxDelayMs cfg))
                      (min (baseDelayMs cfg * 2 ^ nat attempt) (maxDelayMs cfg)))"
    by (simp add: actualDelay_def delayMs_def exponentialDelay_def)
  show ?thesis
    using loop_429_retry [of attempt cfg net tr req r lastError]
      loop_429_last [of attempt cfg net tr req r lastError] assms(2,3)
    by (simp add: s d rateLimitMessage_def show_60)
qed

theorem default_retry_after_witness:
  "makeRequest (\<lambda>n q. Inr (always_429 None)) (DEFAULT_RETRY_CONFIG\<lparr>maxRetries := 0\<rparr>) list_request [] =
     (Inl (Error ''Rate limit exceeded after 0 retries. Please wait 60 seconds before trying again.''),
      [Fetch list_request])
   \<and> actualDelay DEFAULT_RETRY_CONFIG 0 (retryAfterSeconds (always_429 None)) = Fin 60000"
proof -
  have a: "retryAfter (always_429 None) = None" "status (always_429 None) = 429"
    by (simp_all add: always_429_def)
  have m: "(0::int) = maxRetries (DEFAULT_RETRY_CONFIG\<lparr>maxRetries := 0\<rparr>)" by simp
  have n: "(\<lambda>n q. Inr (always_429 None)) (clock []) list_request = Inr (always_429 None)" by simp
  have "makeRequest (\<lambda>n q. Inr (always_429 None)) (DEFAULT_RETRY_CONFIG\<lparr>maxRetries := 0\<rparr>)
          list_request [] =
        makeRequest_loop (\<lambda>n q. Inr (always_429 None)) (DEFAULT_RETRY_CONFIG\<lparr>maxRetries := 0\<rparr>)
          list_request 0 None []"
    by (simp only: makeRequest_def)
  also have "\<dots> =
        (Inl (Error (''Rate limit exceeded after '' @
                     show_int (maxRetries (DEFAULT_RETRY_CONFIG\<lparr>maxRetries := 0\<rparr>)) @
                     '' retries. '' @ ''Please wait 60 seconds before trying again.'')),
         [] @ [Fetch list_request])"
    using default_retry_after [OF a(1) n a(2), where cfg = "DEFAULT_RETRY_CONFIG\<lparr>maxRetries := 0\<rparr>"
            and attempt = 0 and lastError = None] m
    by blast
  also have "\<dots> =
     (Inl (Error ''Rate limit exceeded after 0 retries. Please wait 60 seconds before trying again.''),
      [Fetch list_request])"
    by code_simp
  finally have 1: "makeRequest (\<lambda>n q. Inr (always_429 None)) (DEFAULT_RETRY_CONFIG\<lparr>maxRetries := 0\<rparr>)
                  list_request [] =
     (Inl (Error ''Rate limit exceeded after 0 retries. Please wait 60 seconds before trying again.''),
      [Fetch list_request])" .
  have "actualDelay DEFAULT_RETRY_CONFIG 0 (retryAfterSeconds (always_429 None)) =
          Fin (max (min 60000 (maxDelayMs DEFAULT_RETRY_CONFIG))
                   (min (baseDelayMs DEFAULT_RETRY_CONFIG * 2 ^ nat 0) (maxDelayMs DEFAULT_RETRY_CONFIG)))"
    using default_retry_after [OF a(1) n a(2), where cfg = DEFAULT_RETRY_CONFIG and attempt = 0
            and lastError = None]
    by blast
  also have "\<dots> = Fin 60000"
    by (simp add: DEFAULT_RETRY_CONFIG_def)
  finally have 2: "actualDelay DEFAULT_RETRY_CONFIG 0 (retryAfterSeconds (always_429 None)) = Fin 60000" .
  from 1 2 show ?thesis by (rule conjI)
qed


section \<open>Properties of listing\<close>


lemma loop_trace:
  "makeRequest_loop net cfg req attempt lastError tr = (r, tr') \<Longrightarrow>
   \<exists>evs. tr' = tr @ evs \<and> (\<forall>e\<in>set evs. is_Fetch e \<longrightarrow> e = Fetch req)"
proof (induction net cfg req attempt lastError tr rule: makeRequest_loop.induct)
  case (1 net cfg req attempt lastError tr)
  show ?case
  proof (cases "attempt \<le> maxRetries cfg")
    case False
    with "1.prems" show ?thesis by (simp add: loop_exit)
  next
    case le: True
    show ?thesis
    proof (cases "net (clock tr) req")
      case (Inl m)
      with le "1.prems" show ?thesis
        by (subst (asm) makeRequest_loop.simps) auto
    next
      case (Inr response)
      show ?thesis
      proof (cases "ok response")
        case True
        with le Inr "1.prems" show ?thesis
          by (subst (asm) makeRequest_loop.simps) (auto split: if_splits sum.splits)
      next
        case nok: False
        show ?thesis
        proof (cases "status response = 429")
          case False
          with le Inr nok "1.prems" show ?thesis
            by (subst (asm) makeRequest_loop.simps) auto
        next
          case s: True
          show ?thesis
          proof (cases "attempt < maxRetries cfg")
            case True
            with le Inr nok s "1.prems"
            have "makeRequest_loop net cfg req (attempt + 1) lastError
                    (tr @ [Fetch req,
                       Warn (warnMessage cfg attempt (actualDelay cfg attempt (retryAfterSeconds response))),
                       Sleep (actualDelay cfg attempt (retryAfterSeconds response))]) = (r, tr')"
              by (subst (asm) makeRequest_loop.simps) simp
            from "1.IH"(1) [OF le Inr nok s True this] show ?thesis by auto
          next
            case False
            with le Inr nok s "1.prems"
            have "makeRequest_loop net cfg req (attempt + 1)
                    (Some (Error (rateLimitMessage cfg (retryAfterSeconds response))))
                    (tr @ [Fetch req]) = (r, tr')"
              by (subst (asm) makeRequest_loop.simps) simp
            from "1.IH"(2) [OF le Inr nok s False this] show ?thesis by auto
          qed
        qed
      qed
    qed
  qed
qed

lemma loop_first_fetch:
  assumes "makeRequest_loop net cfg req attempt lastError tr = (Inr v, tr')"
  shows "\<exists>evs. tr' = tr @ Fetch req # evs"
proof -
  have le: "attempt \<le> maxRetries cfg"
    using assms by (cases "attempt \<le> maxRetries cfg") (simp_all add: loop_exit)
  show ?thesis
  proof (cases "net (clock tr) req")
    case (Inl m)
    with le assms show ?thesis by (subst (asm) makeRequest_loop.simps) auto
  next
    case (Inr response)
    show ?thesis
    proof (cases "\<not> ok response \<and> status response = 429")
      case False
      with le Inr assms show ?thesis
        by (subst (asm) makeRequest_loop.simps) (auto split: if_splits sum.splits)
    next
      case True
      with le Inr assms obtain le' tr1 evs0 where
        "makeRequest_loop net cfg req (attempt + 1) le' (tr @ Fetch req # evs0) = (Inr v, tr')"
        by (subst (asm) makeRequest_loop.simps) (auto split: if_splits)
      from loop_trace [OF this] show ?thesis by auto
    qed
  qed
qed

lemma makeRequest_first_fetch:
  "makeRequest net cfg req tr = (Inr v, tr') \<Longrightarrow> \<exists>evs. tr' = tr @ Fetch req # evs"
  unfolding makeRequest_def by (rule loop_first_fetch)


lemma searchParams_countParams:
  "searchParams (countParams params) =
     filter (\<lambda>(k, v). k \<noteq> ''withFullContent'' \<and> k \<noteq> ''withHtmlContent'') (searchParams params)"
  by (induction params) (auto simp: searchParams_def countParams_def)

lemma searchParams_limit:
  "map_of (searchParams (limitedParams params)) ''limit'' = Some ''5''"
proof -
  have "show_int 5 = ''5''" by code_simp
  then show ?thesis
    by (induction params) (auto simp: searchParams_def limitedParams_def)
qed

lemma searchParams_limited_others:
  "filter (\<lambda>(k, v). k \<noteq> ''limit'') (searchParams (limitedParams params)) =
   filter (\<lambda>(k, v). k \<noteq> ''limit'') (searchParams params)"
  by (induction params) (auto simp: searchParams_def limitedParams_def)


text \<open>
  Claim C3. With \<^verbatim>\<open>withFullContent\<close> requested, the first request is the count query:
  the caller's query without the two content flags. When it answers with a count of at
  most 5, the second request is the caller's own query and the response carries no
  message. Above 5 the second request is the caller's query with \<open>limit = 5\<close> (the
  other entries, \<^verbatim>\<open>withFullContent\<close> among them, unchanged), and its result is returned
  with exactly one message: of kind \<open>info\<close>, naming \<open>count - 5\<close>, up to a count of 20,
  and of kind \<open>error\<close> above 20.
\<close>

theorem listDocuments_count_guard:
  assumes "truthy (get params ''withFullContent'')"
    and "makeRequest net cfg (listEndpoint (countParams params)) tr = (Inr (Some countResponse), tr1)"
    and "makeRequest net cfg
           (listEndpoint (if count countResponse > 5 then limitedParams params else params)) tr1 =
         (Inr result, tr2)"
  shows "listDocuments net cfg params tr =
           (Inr \<lparr>data = result,
                 messages =
                   (if count countResponse \<le> 5 then None
                    else if count countResponse \<le> 20 then
                      Some [\<lparr>msg_type = info, content =
                        ''Found '' @ show_int (count countResponse) @
                        '' documents, but only returning the first 5 due to full content request. '' @
                        ''To get the remaining '' @ show_int (count countResponse - 5) @
                        '' documents with full content, '' @
                        ''you can fetch them individually by their IDs using the update/read document API.''\<rparr>]
                    else
                      Some [\<lparr>msg_type = error, content =
                        ''Found '' @ show_int (count countResponse) @
                        '' documents, but only returning the first 5 due to full content request. '' @
                        ''Getting full content for more than 20 documents is not supported due to performance limitations.''\<rparr>])\<rparr>,
            tr2)
         \<and> (\<exists>evs evs'. tr1 = tr @ Fetch (listEndpoint (countParams params)) # evs
               \<and> tr2 = tr1 @ Fetch (listEndpoint (if count countResponse > 5
                                                  then limitedParams params else params)) # evs')
         \<and> query (listEndpoint (countParams params)) =
             filter (\<lambda>(k, v). k \<noteq> ''withFullContent'' \<and> k \<noteq> ''withHtmlContent'')
               (query (listEndpoint params))
         \<and> map_of (query (listEndpoint (limitedParams params))) ''limit'' = Some ''5''
         \<and> filter (\<lambda>(k, v). k \<noteq> ''limit'') (query (listEndpoint (limitedParams params))) =
             filter (\<lambda>(k, v). k \<noteq> ''limit'') (query (listEndpoint params))"
proof -
  have r1: "listDocuments net cfg params tr =
           (Inr \<lparr>data = result,
                 messages =
                   (if count countResponse \<le> 5 then None
                    else if count countResponse \<le> 20 then
                      Some [createInfoMessage (limitInfoText (count countResponse))]
                    else Some [createErrorMessage (limitErrorText (count countResponse))])\<rparr>,
            tr2)"
  proof (cases "5 < count countResponse")
    case True
    with assms(3) have "makeRequest net cfg (listEndpoint (limitedParams params)) tr1 = (Inr result, tr2)"
      by simp
    with assms(1,2) True show ?thesis
      by (simp add: listDocuments_def createResponse_def)
  next
    case False
    with assms(3) have "makeRequest net cfg (listEndpoint params) tr1 = (Inr result, tr2)"
      by simp
    with assms(1,2) False show ?thesis
      by (simp add: listDocuments_def plainList_def createResponse_def)
  qed
  have r2: "\<exists>evs evs'. tr1 = tr @ Fetch (listEndpoint (countParams params)) # evs
               \<and> tr2 = tr1 @ Fetch (listEndpoint (if count countResponse > 5
                                                  then limitedParams params else params)) # evs'"
    using makeRequest_first_fetch [OF assms(2)] makeRequest_first_fetch [OF assms(3)] by blast
  have r3: "query (listEndpoint (countParams params)) =
             filter (\<lambda>(k, v). k \<noteq> ''withFullContent'' \<and> k \<noteq> ''withHtmlContent'')
               (query (listEndpoint params))"
    by (simp add: listEndpoint_def searchParams_countParams)
  have r4: "map_of (query (listEndpoint (limitedParams params))) ''limit'' = Some ''5''"
    by (simp add: listEndpoint_def searchParams_limit)
  have r5: "filter (\<lambda>(k, v). k \<noteq> ''limit'') (query (listEndpoint (limitedParams params))) =
             filter (\<lambda>(k, v). k \<noteq> ''limit'') (query (listEndpoint params))"
    by (simp add: listEndpoint_def searchParams_limited_others)
  from r1 have r1': "listDocuments net cfg params tr =
           (Inr \<lparr>data = result,
                 messages =
                   (if count countResponse \<le> 5 then None
                    else if count countResponse \<le> 20 then
                      Some [\<lparr>msg_type = info, content =
                        ''Found '' @ show_int (count countResponse) @
                        '' documents, but only returning the first 5 due to full content request. '' @
                        ''To get the remaining '' @ show_int (count countResponse - 5) @
                        '' documents with full content, '' @
                        ''you can fetch them individually by their IDs using the update/read document API.''\<rparr>]
                    else
                      Some [\<lparr>msg_type = error, content =
                        ''Found '' @ show_int (count countResponse) @
                        '' documents, but only returning the first 5 due to full content request. '' @
                        ''Getting full content for more than 20 documents is not supported due to performance limitations.''\<rparr>])\<rparr>,
            tr2)"
    by (simp only: createInfoMessage_def createErrorMessage_def limitInfoText_def limitErrorText_def)
  from r1' r2 r3 r4 r5 show ?thesis by (intro conjI)
qed

theorem listDocuments_count_guard_witness:
  "listDocuments (counting_net 15) DEFAULT_RETRY_CONFIG full_content_params [] =
     (Inr \<lparr>data = Some (counted_page 15),
           messages = Some [\<lparr>msg_type = info, content =
             ''Found 15 documents, but only returning the first 5 due to full content request. To get the remaining 10 documents with full content, you can fetch them individually by their IDs using the update/read document API.''\<rparr>]\<rparr>,
      [Fetch \<lparr>http_method = GET, path = ''/list/'', query = [(''category'', ''article'')]\<rparr>,
       Fetch \<lparr>http_method = GET, path = ''/list/'',
              query = [(''withFullContent'', ''true''), (''category'', ''article''), (''limit'', ''5'')]\<rparr>])"
proof -
  let ?q1 = "\<lparr>http_method = GET, path = ''/list/'', query = [(''category'', ''article'')]\<rparr>"
  let ?q2 = "\<lparr>http_method = GET, path = ''/list/'',
              query = [(''withFullContent'', ''true''), (''category'', ''article''), (''limit'', ''5'')]\<rparr>"
  have h1: "truthy (get full_content_params ''withFullContent'')"
    by code_simp
  have h2: "makeRequest (counting_net 15) DEFAULT_RETRY_CONFIG
              (listEndpoint (countParams full_content_params)) [] =
            (Inr (Some (counted_page 15)), [Fetch ?q1])"
    by code_simp
  have h3: "makeRequest (counting_net 15) DEFAULT_RETRY_CONFIG
              (listEndpoint (if count (counted_page 15) > 5 then limitedParams full_content_params
                             else full_content_params)) [Fetch ?q1] =
            (Inr (Some (counted_page 15)), [Fetch ?q1, Fetch ?q2])"
    by code_simp
  have "listDocuments (counting_net 15) DEFAULT_RETRY_CONFIG full_content_params [] =
           (Inr \<lparr>data = Some (counted_page 15),
                 messages =
                   (if count (counted_page 15) \<le> 5 then None
                    else if count (counted_page 15) \<le> 20 then
                      Some [\<lparr>msg_type = info, content =
                        ''Found '' @ show_int (count (counted_page 15)) @
                        '' documents, but only returning the first 5 due to full content request. '' @
                        ''To get the remaining '' @ show_int (count (counted_page 15) - 5) @
                        '' documents with full content, '' @
                        ''you can fetch them individually by their IDs using the update/read document API.''\<rparr>]
                    else
                      Some [\<lparr>msg_type = error, content =
                        ''Found '' @ show_int (count (counted_page 15)) @
                        '' documents, but only returning the first 5 due to full content request. '' @
                        ''Getting full content for more than 20 documents is not supported due to performance limitations.''\<rparr>])\<rparr>,
            [Fetch ?q1, Fetch ?q2])"
    using listDocuments_count_guard [OF h1 h2 h3] by blast
  also have "\<dots> =
     (Inr \<lparr>data = Some (counted_page 15),
           messages = Some [\<lparr>msg_type = info, content =
             ''Found 15 documents, but only returning the first 5 due to full content request. To get the remaining 10 documents with full content, you can fetch them individually by their IDs using the update/read document API.''\<rparr>]\<rparr>,
      [Fetch ?q1, Fetch ?q2])"
    by code_simp
  finally show ?thesis .
qed


section \<open>Properties of aggregation and client-side filtering\<close>

lemma topic_loop_linked:
  "linked (\<lambda>c. listDocuments net cfg (topicParams c)) cursor tr pages \<Longrightarrow>
   searchDocumentsByTopic_loop net cfg acc cursor tr =
     Some (Inr (acc @ concat (map results pages)),
           after_pages (\<lambda>c. listDocuments net cfg (topicParams c)) cursor tr pages)"
proof (induction pages arbitrary: acc cursor tr)
  case Nil
  then show ?case by simp
next
  case (Cons p ps)
  obtain r tr' where call: "listDocuments net cfg (topicParams cursor) tr = (r, tr')"
    by (cases "listDocuments net cfg (topicParams cursor) tr")
  with Cons.prems obtain response where r: "r = Inr response" and d: "data response = Some p"
    and rest: "if ps = [] then \<not> truthy (nextPageCursor p)
               else truthy (nextPageCursor p) \<and>
                    linked (\<lambda>c. listDocuments net cfg (topicParams c)) (nextPageCursor p) tr' ps"
    by (cases r) auto
  show ?case
  proof (cases "ps = []")
    case True
    with rest call r d show ?thesis
      by (subst searchDocumentsByTopic_loop.simps) simp
  next
    case False
    with rest have t: "truthy (nextPageCursor p)"
      and l: "linked (\<lambda>c. listDocuments net cfg (topicParams c)) (nextPageCursor p) tr' ps"
      by simp_all
    from Cons.IH [OF l, of "acc @ results p"] t call r d show ?thesis
      by (subst searchDocumentsByTopic_loop.simps) simp
  qed
qed

lemma handler_loop_linked:
  "linked (\<lambda>c. listDocuments net cfg (pageParams apiParams c)) cursor tr pages \<Longrightarrow>
   handleListDocuments_loop net cfg apiParams acc cursor tr =
     Some (Inr (acc @ concat (map results pages)),
           after_pages (\<lambda>c. listDocuments net cfg (pageParams apiParams c)) cursor tr pages)"
proof (induction pages arbitrary: acc cursor tr)
  case Nil
  then show ?case by simp
next
  case (Cons p ps)
  obtain r tr' where call: "listDocuments net cfg (pageParams apiParams cursor) tr = (r, tr')"
    by (cases "listDocuments net cfg (pageParams apiParams cursor) tr")
  with Cons.prems obtain response where r: "r = Inr response" and d: "data response = Some p"
    and rest: "if ps = [] then \<not> truthy (nextPageCursor p)
               else truthy (nextPageCursor p) \<and>
                    linked (\<lambda>c. listDocuments net cfg (pageParams apiParams c)) (nextPageCursor p) tr' ps"
    by (cases r) auto
  show ?case
  proof (cases "ps = []")
    case True
    with rest call r d show ?thesis
      by (subst handleListDocuments_loop.simps) simp
  next
    case False
    with rest have t: "truthy (nextPageCursor p)"
      and l: "linked (\<lambda>c. listDocuments net cfg (pageParams apiParams c)) (nextPageCursor p) tr' ps"
      by simp_all
    from Cons.IH [OF l, of "acc @ results p"] t call r d show ?thesis
      by (subst handleListDocuments_loop.simps) simp
  qed
qed

text \<open>
  Claim C4. When the successive page calls return the pages \<open>P1 .. Pn\<close>, each page but
  the last with a cursor and the last without one, both aggregation loops (the one of the
  topic search and the one of the \<^verbatim>\<open>addedAfter\<close> path) return the concatenation of the
  pages' results in order, and stop in the state reached after the \<open>n\<close>-th call: no
  further page is requested.
\<close>

theorem pagination_concatenates:
  "(linked (\<lambda>c. listDocuments net cfg (topicParams c)) Undefined tr pages \<longrightarrow>
      searchDocumentsByTopic_loop net cfg [] Undefined tr =
        Some (Inr (concat (map results pages)),
              after_pages (\<lambda>c. listDocuments net cfg (topicParams c)) Undefined tr pages))
   \<and> (linked (\<lambda>c. listDocuments net cfg (pageParams apiParams c)) Undefined tr pages \<longrightarrow>
      handleListDocuments_loop net cfg apiParams [] Undefined tr =
        Some (Inr (concat (map results pages)),
              after_pages (\<lambda>c. listDocuments net cfg (pageParams apiParams c)) Undefined tr pages))"
  using topic_loop_linked [of net cfg Undefined tr pages "[]"]
    handler_loop_linked [of net cfg apiParams Undefined tr pages "[]"]
  by simp

theorem pagination_concatenates_witness:
  "searchDocumentsByTopic_loop paged_net DEFAULT_RETRY_CONFIG [] Undefined [] =
     Some (Inr (results page_one @ results page_two @ results page_three),
           [page_request [(''withFullContent'', ''false''), (''withHtmlContent'', ''false'')],
            page_request [(''withFullContent'', ''false''), (''withHtmlContent'', ''false''),
                          (''pageCursor'', ''cursor2'')],
            page_request [(''withFullContent'', ''false''), (''withHtmlContent'', ''false''),
                          (''pageCursor'', ''cursor3'')]])
   \<and> handleListDocuments_loop paged_net DEFAULT_RETRY_CONFIG [] [] Undefined [] =
     Some (Inr (results page_one @ results page_two @ results page_three),
           [page_request [], page_request [(''pageCursor'', ''cursor2'')],
            page_request [(''pageCursor'', ''cursor3'')]])"
proof -
  let ?pages = "[page_one, page_two, page_three]"
  let ?c1 = "\<lambda>c. listDocuments paged_net DEFAULT_RETRY_CONFIG (topicParams c)"
  let ?c2 = "\<lambda>c. listDocuments paged_net DEFAULT_RETRY_CONFIG (pageParams [] c)"
  have l1: "linked ?c1 Undefined [] ?pages" by code_simp
  have l2: "linked ?c2 Undefined [] ?pages" by code_simp
  have "searchDocumentsByTopic_loop paged_net DEFAULT_RETRY_CONFIG [] Undefined [] =
          Some (Inr (concat (map results ?pages)), after_pages ?c1 Undefined [] ?pages)"
    using pagination_concatenates [of paged_net DEFAULT_RETRY_CONFIG "[]" ?pages "[]"] l1
    by blast
  also have "\<dots> =
     Some (Inr (results page_one @ results page_two @ results page_three),
           [page_request [(''withFullContent'', ''false''), (''withHtmlContent'', ''false'')],
            page_request [(''withFullContent'', ''false''), (''withHtmlContent'', ''false''),
                          (''pageCursor'', ''cursor2'')],
            page_request [(''withFullContent'', ''false''), (''withHtmlContent'', ''false''),
                          (''pageCursor'', ''cursor3'')]])"
    by code_simp
  finally have 1: "searchDocumentsByTopic_loop paged_net DEFAULT_RETRY_CONFIG [] Undefined [] =
     Some (Inr (results page_one @ results page_two @ results page_three),
           [page_request [(''withFullContent'', ''false''), (''withHtmlContent'', ''false'')],
            page_request [(''withFullContent'', ''false''), (''withHtmlContent'', ''false''),
                          (''pageCursor'', ''cursor2'')],
            page_request [(''withFullContent'', ''false''), (''withHtmlContent'', ''false''),
                          (''pageCursor'', ''cursor3'')]])" .
  have "handleListDocuments_loop paged_net DEFAULT_RETRY_CONFIG [] [] Undefined [] =
          Some (Inr (concat (map results ?pages)), after_pages ?c2 Undefined [] ?pages)"
    using pagination_concatenates [of paged_net DEFAULT_RETRY_CONFIG "[]" ?pages "[]"] l2
    by blast
  also have "\<dots> =
     Some (Inr (results page_one @ results page_two @ results page_three),
           [page_request [], page_request [(''pageCursor'', ''cursor2'')],
            page_request [(''pageCursor'', ''cursor3'')]])"
    by code_simp
  finally have 2: "handleListDocuments_loop paged_net DEFAULT_RETRY_CONFIG [] [] Undefined [] =
     Some (Inr (results page_one @ results page_two @ results page_three),
           [page_request [], page_request [(''pageCursor'', ''cursor2'')],
            page_request [(''pageCursor'', ''cursor3'')]])" .
  from 1 2 show ?thesis by (rule conjI)
qed























section \<open>Properties of the returned documents\<close>
















section \<open>Properties of bulk delete\<close>












end
